theory Spec2Isabelle
  imports Complex_Main
begin

section \<open>Numbers and strings of the Python source\<close>

text \<open>
  The program computes with Python \<^verbatim>\<open>int\<close> (unbounded, modelled as \<^typ>\<open>int\<close>) and
  Python \<^verbatim>\<open>float\<close>. The functions below are written with exact \<^typ>\<open>real\<close> arithmetic:
  they are the formulas the code evaluates, without the rounding of each operation. The
  load loop is given a second time with a rounding function applied after every float
  operation; with \<open>binary64\<close> for it, it computes the very numbers CPython computes.
  Strings are \<^typ>\<open>string\<close>; \<^verbatim>\<open>str.lower\<close> is modelled on the ASCII letters only.
\<close>

definition ascii_uppercase :: string where
  "ascii_uppercase = ''ABCDEFGHIJKLMNOPQRSTUVWXYZ''"

definition ascii_lowercase :: string where
  "ascii_lowercase = ''abcdefghijklmnopqrstuvwxyz''"

definition lower_char :: "char \<Rightarrow> char" where
  "lower_char c =
     (case map_of (zip ascii_uppercase ascii_lowercase) c of None \<Rightarrow> c | Some d \<Rightarrow> d)"

definition lower :: "string \<Rightarrow> string" where
  "lower s = map lower_char s"

text \<open>\<^verbatim>\<open>s.startswith(p)\<close>\<close>

definition startswith :: "string \<Rightarrow> string \<Rightarrow> bool" where
  "startswith s p = (take (length p) s = p)"

text \<open>\<^verbatim>\<open>p in s\<close> on strings: \<open>p\<close> occurs in \<open>s\<close> as a contiguous block.\<close>

fun contains :: "string \<Rightarrow> string \<Rightarrow> bool" where
  "contains [] p = (p = [])"
| "contains (c # cs) p = (startswith (c # cs) p \<or> contains cs p)"

text \<open>\<^verbatim>\<open>int(x)\<close> on a float truncates towards zero.\<close>

definition py_int :: "real \<Rightarrow> int" where
  "py_int x = (if 0 \<le> x then \<lfloor>x\<rfloor> else \<lceil>x\<rceil>)"

datatype error = ValidationError string | ZeroDivisionError

section \<open>Market data and catalogue\<close>

text \<open>\<^verbatim>\<open>PRICES\<close>, one constant per key of the dictionary.\<close>

definition panel_500w :: int where "panel_500w = 145000"
definition battery_220ah :: int where "battery_220ah = 340000"
definition inverter_3kva :: int where "inverter_3kva = 650000"
definition inverter_5kva :: int where "inverter_5kva = 1100000"
definition inverter_10kva :: int where "inverter_10kva = 2600000"
definition install_base :: int where "install_base = 150000"
definition install_heavy :: int where "install_heavy = 350000"

text \<open>\<^verbatim>\<open>SOLAR_DATA\<close>, in the insertion order the \<^verbatim>\<open>for key in SOLAR_DATA\<close> loop follows.\<close>

definition SOLAR_DATA :: "(string \<times> real) list" where
  "SOLAR_DATA =
     [(''Lagos'', 4.4), (''Abuja'', 5.2), (''Kano'', 5.8), (''Ibadan'', 4.6),
      (''Port Harcourt'', 3.8), (''Enugu'', 4.5), (''Sokoto'', 6.0)]"

record appliance =
  name :: string
  watts :: int
  surge :: bool

text \<open>An entry of \<^verbatim>\<open>user_items\<close>: \<^verbatim>\<open>{**item, "qty": qty, "hours": hrs, "cat": category}\<close>.\<close>

record user_item = appliance +
  qty :: int
  hours :: real
  cat :: string

definition mk :: "string \<Rightarrow> int \<Rightarrow> bool \<Rightarrow> appliance" where
  "mk n w s = \<lparr>name = n, watts = w, surge = s\<rparr>"

definition APPLIANCES :: "(string \<times> appliance list) list" where
  "APPLIANCES =
     [(''Essentials'',
        [mk ''LED Bulb'' 10 False, mk ''Ceiling Fan (Ox)'' 85 False,
         mk ''Standing Fan'' 55 False, mk ''Phone/Tablet'' 15 False,
         mk ''Router/WiFi'' 12 False]),
      (''Work & Tech'',
        [mk ''Laptop (Mac/HP)'' 65 False, mk ''Starlink Kit'' 75 False,
         mk ''Monitor (24in)'' 35 False, mk ''Desktop PC'' 250 False]),
      (''Kitchen & Cooling'',
        [mk ''Small Fridge'' 120 True, mk ''Medium Freezer'' 250 True,
         mk ''Big Freezer (Chest)'' 350 True, mk ''Inverter AC (1HP)'' 900 True,
         mk ''Inverter AC (1.5HP)'' 1400 True]),
      (''Heavy Duty'',
        [mk ''Pumping Machine (Sumo)'' 750 True, mk ''Washing Machine'' 500 True,
         mk ''Electric Kettle'' 1500 False, mk ''Microwave'' 1200 False,
         mk ''Ironing (Steam)'' 1500 False])]"

text \<open>The two options of the \<^verbatim>\<open>System Mode\<close> radio button.\<close>

definition Reliability :: string where "Reliability = ''Reliability (24/7)''"

section \<open>Appliance inputs\<close>

text \<open>
  The input loop of section 4 of the source. The two number inputs of an appliance are
  keyed by its name, so the widgets are a function from the name to the quantity and a
  function from the name to the hours. An appliance enters \<^verbatim>\<open>user_items\<close> only when
  its quantity is positive.
\<close>

definition add_item :: "(string \<Rightarrow> int) \<Rightarrow> (string \<Rightarrow> real) \<Rightarrow> string \<Rightarrow> appliance \<Rightarrow> user_item list" where
  "add_item q h category item =
     (if q (name item) > 0
      then [\<lparr>name = name item, watts = watts item, surge = surge item,
             qty = q (name item), hours = h (name item), cat = category\<rparr>]
      else [])"

definition collect_user_items :: "(string \<Rightarrow> int) \<Rightarrow> (string \<Rightarrow> real) \<Rightarrow> user_item list" where
  "collect_user_items q h =
     concat (map (\<lambda>(category, items). concat (map (add_item q h category) items)) APPLIANCES)"

text \<open>The default of the hours input: \<^verbatim>\<open>0.5 if item['watts'] > 1000 else 6.0\<close>.\<close>

definition def_hr :: "appliance \<Rightarrow> real" where
  "def_hr item = (if watts item > 1000 then 0.5 else 6.0)"

section \<open>Load analysis\<close>

record load =
  total_daily_wh :: real
  peak_load_watts :: int
  night_load_wh :: real
  heavy_consumers :: "(string \<times> real) list"

definition daily_use :: "user_item \<Rightarrow> real" where
  "daily_use item = real_of_int (watts item * qty item) * hours item"

definition is_heavy :: "user_item \<Rightarrow> bool" where
  "is_heavy item = (cat item \<in> set [''Heavy Duty'', ''Kitchen & Cooling''])"

text \<open>
  One pass of the loop body of part A. An entry of \<^verbatim>\<open>heavy_consumers\<close> is kept as the
  name with the number the source formats into the text, \<^verbatim>\<open>daily_use/1000\<close>.
\<close>

definition load_step :: "string \<Rightarrow> load \<Rightarrow> user_item \<Rightarrow> load" where
  "load_step mode s item =
     \<lparr>total_daily_wh = total_daily_wh s + daily_use item,
      peak_load_watts = peak_load_watts s + watts item * qty item,
      night_load_wh =
        (if startswith mode ''Smart'' \<and> is_heavy item then night_load_wh s
         else night_load_wh s + daily_use item * 0.6),
      heavy_consumers =
        (if daily_use item > 1000
         then heavy_consumers s @ [(name item, daily_use item / 1000)]
         else heavy_consumers s)\<rparr>"

definition load_init :: load where
  "load_init = \<lparr>total_daily_wh = 0, peak_load_watts = 0, night_load_wh = 0, heavy_consumers = []\<rparr>"

definition load_analysis :: "string \<Rightarrow> user_item list \<Rightarrow> load" where
  "load_analysis mode items = foldl (load_step mode) load_init items"

section \<open>Float arithmetic as the interpreter performs it\<close>

text \<open>
  A Python float is an IEEE 754 binary64 number, and every operation returns the exact
  result rounded to the nearest such number, ties to the even significand. \<open>expo x\<close> is the
  exponent \<open>e\<close> with \<open>2^e \<le> x < 2^(e+1)\<close> of a positive \<open>x\<close>; a significand has 53 bits, and
  below \<open>2^-1022\<close> the spacing stays \<open>2^-1074\<close>. Results of magnitude \<open>2^1024\<close> and
  more (Python's \<^verbatim>\<open>inf\<close>) are outside this model; the program's numbers are far below.
\<close>

function expo :: "real \<Rightarrow> int" where
  "expo x = (if x \<le> 0 then 0
             else if 2 \<le> x then expo (x / 2) + 1
             else if x < 1 then expo (x * 2) - 1
             else 0)"
  by pat_completeness auto
termination
proof (relation "measure (\<lambda>x. if 1 \<le> x then nat \<lfloor>x\<rfloor> else nat \<lceil>1 / x\<rceil>)")
  show "wf (measure (\<lambda>x. if 1 \<le> x then nat \<lfloor>x\<rfloor> else nat \<lceil>1 / x\<rceil>))" by simp
next
  fix x :: real
  assume a: "\<not> x \<le> 0" "2 \<le> x"
  have "\<lfloor>x / 2\<rfloor> \<le> \<lfloor>x - 1\<rfloor>" using a by (intro floor_mono) simp
  then have "\<lfloor>x / 2\<rfloor> < \<lfloor>x\<rfloor>" by simp
  moreover have "0 < \<lfloor>x\<rfloor>" using a by simp
  ultimately show "(x / 2, x) \<in> measure (\<lambda>x. if 1 \<le> x then nat \<lfloor>x\<rfloor> else nat \<lceil>1 / x\<rceil>)"
    using a by simp
next
  fix x :: real
  assume a: "\<not> x \<le> 0" "\<not> 2 \<le> x" "x < 1"
  have pos: "0 < x" using a by simp
  have y: "1 < 1 / x" using a pos by simp
  show "(x * 2, x) \<in> measure (\<lambda>x. if 1 \<le> x then nat \<lfloor>x\<rfloor> else nat \<lceil>1 / x\<rceil>)"
  proof (cases "1 \<le> x * 2")
    case True
    then have "\<lfloor>x * 2\<rfloor> = 1" using a by (intro floor_unique) simp_all
    moreover have "1 < \<lceil>1 / x\<rceil>" using y by (simp add: less_ceiling_iff)
    ultimately show ?thesis using True a by simp
  next
    case False
    then have "2 < 1 / x" using a pos by (simp add: field_simps)
    then have "1 / (x * 2) \<le> 1 / x - 1" using pos by (simp add: field_simps)
    then have "\<lceil>1 / (x * 2)\<rceil> \<le> \<lceil>1 / x - 1\<rceil>" by (rule ceiling_mono)
    then have "\<lceil>1 / (x * 2)\<rceil> < \<lceil>1 / x\<rceil>" by simp
    moreover have "0 < \<lceil>1 / x\<rceil>" using pos by (simp add: less_ceiling_iff)
    ultimately show ?thesis using False a by simp
  qed
qed

declare expo.simps [simp del]

definition round_even :: "real \<Rightarrow> int" where
  "round_even x =
     (let n = \<lfloor>x\<rfloor>; r = x - real_of_int n
      in if r < 1 / 2 then n else if 1 / 2 < r then n + 1 else if even n then n else n + 1)"

definition scale :: "int \<Rightarrow> real \<Rightarrow> real" where
  "scale e x = (if 0 \<le> e then x * 2 ^ nat e else x / 2 ^ nat (- e))"

definition binary64 :: "real \<Rightarrow> real" where
  "binary64 x =
     (if x = 0 then 0
      else let e = max (expo \<bar>x\<bar>) (- 1022)
           in sgn x * scale (e - 52) (real_of_int (round_even (scale (52 - e) \<bar>x\<bar>))))"

text \<open>
  The loop body of part A with the rounding \<open>fl\<close> after each float operation:
  \<^verbatim>\<open>watts * qty\<close> is an int product, converted to float for \<^verbatim>\<open>* hours\<close>; \<^verbatim>\<open>0.6\<close> is the float
  nearest to 0.6.
\<close>

definition load_step_fl :: "(real \<Rightarrow> real) \<Rightarrow> string \<Rightarrow> load \<Rightarrow> user_item \<Rightarrow> load" where
  "load_step_fl fl mode s item =
     (let daily = fl (fl (real_of_int (watts item * qty item)) * hours item)
      in \<lparr>total_daily_wh = fl (total_daily_wh s + daily),
          peak_load_watts = peak_load_watts s + watts item * qty item,
          night_load_wh =
            (if startswith mode ''Smart'' \<and> is_heavy item then night_load_wh s
             else fl (night_load_wh s + fl (daily * fl 0.6))),
          heavy_consumers =
            (if daily > 1000 then heavy_consumers s @ [(name item, fl (daily / 1000))]
             else heavy_consumers s)\<rparr>)"

definition load_analysis_fl :: "(real \<Rightarrow> real) \<Rightarrow> string \<Rightarrow> user_item list \<Rightarrow> load" where
  "load_analysis_fl fl mode items = foldl (load_step_fl fl mode) load_init items"

section \<open>Sizing the hardware\<close>

text \<open>
  Panels. Python raises \<^verbatim>\<open>ZeroDivisionError\<close> on a float division by zero; the only
  divisor that is not a constant is \<^verbatim>\<open>sun_hours * 1000\<close>.
\<close>

definition req_panel_kw :: "real \<Rightarrow> real \<Rightarrow> error + real" where
  "req_panel_kw daily_wh sun_hours =
     (if sun_hours * 1000 = 0 then Inl ZeroDivisionError
      else Inr ((daily_wh / 0.7) / (sun_hours * 1000)))"

definition num_panels :: "real \<Rightarrow> real \<Rightarrow> error + int" where
  "num_panels daily_wh sun_hours =
     (case req_panel_kw daily_wh sun_hours of
        Inl e \<Rightarrow> Inl e
      | Inr kw \<Rightarrow> Inr \<lceil>(kw * 1000) / 500\<rceil>)"

text \<open>Inverter: the triple \<^verbatim>\<open>inv_name, inv_price, sys_v\<close>.\<close>

definition req_inv_watts :: "int \<Rightarrow> real" where
  "req_inv_watts peak = real_of_int peak * 1.25"

definition select_inverter :: "int \<Rightarrow> string \<times> int \<times> int" where
  "select_inverter peak =
     (if req_inv_watts peak < 3000 then (''3kVA (24V)'', inverter_3kva, 24)
      else if req_inv_watts peak < 5000 then (''5kVA (48V)'', inverter_5kva, 48)
      else (''10kVA (48V)'', inverter_10kva, 48))"

text \<open>Batteries. \<^verbatim>\<open>batt_wh_needed / sys_v\<close> raises when \<^verbatim>\<open>sys_v\<close> is zero.\<close>

definition num_batteries :: "real \<Rightarrow> int \<Rightarrow> error + int" where
  "num_batteries night sys_v =
     (if sys_v = 0 then Inl ZeroDivisionError
      else
        let batt_wh_needed = night / 0.5;
            total_batt_ah = batt_wh_needed / real_of_int sys_v;
            series_string = real_of_int sys_v / 12;
            parallel_strings = \<lceil>total_batt_ah / 220\<rceil>;
            n = py_int (series_string * real_of_int parallel_strings)
        in Inr (if real_of_int n < series_string then py_int series_string else n))"

section \<open>Financials, energy balance and the whole analysis\<close>

definition gen_wh :: "int \<Rightarrow> real \<Rightarrow> real" where
  "gen_wh panels sun_hours = real_of_int panels * 500 * sun_hours * 0.75"

record report =
  summary :: load
  inverter :: string
  voltage :: int
  panels :: int
  batteries :: int
  cost_panels :: int
  cost_batts :: int
  cost_inverter :: int
  cost_install :: int
  total_cost :: int
  generation :: real
  warning :: bool

text \<open>
  The handler of the analysis button. \<^verbatim>\<open>st.error\<close> on an empty \<^verbatim>\<open>user_items\<close> is
  the left result \<open>ValidationError\<close> with the text shown; the \<^verbatim>\<open>else\<close> branch builds
  everything the page displays.
\<close>

definition run_analysis :: "string \<Rightarrow> real \<Rightarrow> user_item list \<Rightarrow> error + report" where
  "run_analysis mode sun_hours user_items =
     (if user_items = [] then Inl (ValidationError ''Please select at least one appliance.'')
      else
        let ld = load_analysis mode user_items in
        case num_panels (total_daily_wh ld) sun_hours of
          Inl e \<Rightarrow> Inl e
        | Inr np \<Rightarrow>
           (case select_inverter (peak_load_watts ld) of
              (inv_name, inv_price, sys_v) \<Rightarrow>
                (case num_batteries (night_load_wh ld) sys_v of
                   Inl e \<Rightarrow> Inl e
                 | Inr nb \<Rightarrow>
                     let cp = np * panel_500w;
                         cb = nb * battery_220ah;
                         ci = (if sys_v > 24 then install_heavy else install_base)
                     in Inr \<lparr>summary = ld, inverter = inv_name, voltage = sys_v,
                             panels = np, batteries = nb,
                             cost_panels = cp, cost_batts = cb, cost_inverter = inv_price,
                             cost_install = ci, total_cost = cp + cb + inv_price + ci,
                             generation = gen_wh np sun_hours,
                             warning = (gen_wh np sun_hours < total_daily_wh ld)\<rparr>)))"

section \<open>Sun hours of a city\<close>

text \<open>
  What the geocoding service can do with a query: return a location (of which the code
  reads the latitude), return \<^verbatim>\<open>None\<close>, or raise (a timeout of the client library is
  an exception as well).
\<close>

datatype geo_result = Located real | NoLocation | Raised

text \<open>
  The message returned with the hours. The two fixed texts are strings; the text of a
  geocoded result formats two floats and is kept as the pair of numbers it shows.
\<close>

datatype message = Text string | Detected real real

text \<open>Step 1, the loop over the table: the first key whose lower case occurs in the city name.\<close>

fun table_lookup :: "(string \<times> real) list \<Rightarrow> string \<Rightarrow> (string \<times> real) option" where
  "table_lookup [] city_name = None"
| "table_lookup ((key, v) # rest) city_name =
     (if contains (lower city_name) (lower key) then Some (key, v)
      else table_lookup rest city_name)"

text \<open>Step 2, the body of the \<^verbatim>\<open>try\<close>: \<open>Inl\<close> is an exception raised inside it.\<close>

definition lat_hours :: "real \<Rightarrow> real" where
  "lat_hours lat = (if lat > 11 then 5.8 else if lat > 9 then 5.2 else if lat > 7 then 4.6 else 4.0)"

definition geo_lookup :: "(string \<Rightarrow> geo_result) \<Rightarrow> string \<Rightarrow> unit + (real \<times> message) option" where
  "geo_lookup geocode city_name =
     (case geocode (city_name @ '', Nigeria'') of
        Raised \<Rightarrow> Inl ()
      | NoLocation \<Rightarrow> Inr None
      | Located lat \<Rightarrow> Inr (Some (lat_hours lat, Detected lat (lat_hours lat))))"

definition nigeria_average :: "real \<times> message" where
  "nigeria_average = (4.6, Text ''Using Nigeria Average (4.6h)'')"

text \<open>The bare \<^verbatim>\<open>except: pass\<close> sends every exception of the body to the last line.\<close>

definition get_sun_hours :: "(string \<Rightarrow> geo_result) \<Rightarrow> string \<Rightarrow> real \<times> message" where
  "get_sun_hours geocode city_name =
     (case table_lookup SOLAR_DATA city_name of
        Some (key, v) \<Rightarrow> (v, Text (''Using historical data for '' @ key))
      | None \<Rightarrow>
         (case geo_lookup geocode city_name of
            Inr (Some r) \<Rightarrow> r
          | Inr None \<Rightarrow> nigeria_average
          | Inl _ \<Rightarrow> nigeria_average))"

text \<open>One run of the page with the button pressed.\<close>

definition app :: "(string \<Rightarrow> geo_result) \<Rightarrow> string \<Rightarrow> string \<Rightarrow> (string \<Rightarrow> int) \<Rightarrow> (string \<Rightarrow> real) \<Rightarrow> error + report" where
  "app geocode city_input mode q h =
     run_analysis mode (fst (get_sun_hours geocode city_input)) (collect_user_items q h)"

section \<open>Properties stated about the program\<close>

text \<open>
  The range of a selected appliance: a catalogue wattage is positive, and the two number
  inputs keep the quantity within 0..10 and the hours within 0..24.
\<close>

definition valid_item :: "user_item \<Rightarrow> bool" where
  "valid_item i = (0 < watts i \<and> 0 \<le> qty i \<and> qty i \<le> 10 \<and> 0 \<le> hours i \<and> hours i \<le> 24)"

text \<open>The names of all appliances of the catalogue, the keys of the input widgets.\<close>

definition catalogue_names :: "string list" where
  "catalogue_names = concat (map (\<lambda>(category, items). map name items) APPLIANCES)"






section \<open>Load analysis: the loop computes sums\<close>

lemma foldl_total:
  "total_daily_wh (foldl (load_step mode) s items) = total_daily_wh s + (\<Sum>i\<leftarrow>items. daily_use i)"
  by (induction items arbitrary: s) (simp_all add: load_step_def)






section \<open>Night load against daily load\<close>

lemma daily_use_nonneg: "valid_item i \<Longrightarrow> 0 \<le> daily_use i"
  by (simp add: valid_item_def daily_use_def)





text \<open>
  The loop with rounding is the loop above when nothing is rounded, and with \<open>binary64\<close>
  it gives the floats of the interpreter: 0.6 and 0.1 are the well-known fractions, and a
  tie goes to the even significand.
\<close>

lemma exact_reading: "load_analysis_fl (\<lambda>x. x) mode items = load_analysis mode items"
proof -
  have "load_step_fl (\<lambda>x. x) mode = load_step mode"
    by (simp add: fun_eq_iff load_step_fl_def load_step_def daily_use_def Let_def)
  then show ?thesis by (simp add: load_analysis_fl_def load_analysis_def)
qed

lemma binary64_examples:
  "binary64 0.6 = 5404319552844595 / 9007199254740992"
  "binary64 0.1 = 3602879701896397 / 36028797018963968"
  "binary64 9007199254740993 = 9007199254740992"
  "binary64 9007199254740995 = 9007199254740996"
  "binary64 (- 2.5) = - 2.5"
  by (simp_all add: binary64_def expo.simps round_even_def Let_def scale_def)








section \<open>Panels\<close>

lemma panels_value:
  "s \<noteq> 0 \<Longrightarrow> num_panels e s = Inr \<lceil>((e / 0.7) / (s * 1000)) * 1000 / 500\<rceil>"
  by (simp add: num_panels_def req_panel_kw_def)

lemma panels_simpler:
  "s \<noteq> 0 \<Longrightarrow> ((e / 0.7) / (s * 1000)) * 1000 / 500 = e / (350 * s)" for e s :: real
  by (simp add: field_simps)



text \<open>
  Claim C7. The number of panels does not decrease when the daily energy grows (sun hours
  fixed and positive) and does not increase when the sun hours grow (daily energy fixed and
  non-negative, sun hours positive).
\<close>

theorem num_panels_monotone:
  "(0 < s \<and> e1 \<le> e2 \<longrightarrow>
      (\<exists>n1 n2. num_panels e1 s = Inr n1 \<and> num_panels e2 s = Inr n2 \<and> n1 \<le> n2))
   \<and> (0 \<le> e \<and> 0 < s1 \<and> s1 \<le> s2 \<longrightarrow>
      (\<exists>n1 n2. num_panels e s1 = Inr n1 \<and> num_panels e s2 = Inr n2 \<and> n2 \<le> n1))"
proof (intro conjI impI)
  assume h: "0 < s \<and> e1 \<le> e2"
  then have "e1 / (350 * s) \<le> e2 / (350 * s)"
    by (simp add: divide_right_mono)
  then have "\<lceil>e1 / (350 * s)\<rceil> \<le> \<lceil>e2 / (350 * s)\<rceil>"
    by (rule ceiling_mono)
  with h show "\<exists>n1 n2. num_panels e1 s = Inr n1 \<and> num_panels e2 s = Inr n2 \<and> n1 \<le> n2"
    by (simp add: panels_value panels_simpler)
next
  assume h: "0 \<le> e \<and> 0 < s1 \<and> s1 \<le> s2"
  then have "e / (350 * s2) \<le> e / (350 * s1)"
    by (intro divide_left_mono) (auto simp: mult_pos_pos)
  then have "\<lceil>e / (350 * s2)\<rceil> \<le> \<lceil>e / (350 * s1)\<rceil>"
    by (rule ceiling_mono)
  with h show "\<exists>n1 n2. num_panels e s1 = Inr n1 \<and> num_panels e s2 = Inr n2 \<and> n2 \<le> n1"
    by (simp add: panels_value panels_simpler)
qed

theorem num_panels_monotone_witness:
  "(0::real) < 5 \<and> (300::real) \<le> 4000 \<and> num_panels 300 5 = Inr 1 \<and> num_panels 4000 5 = Inr 3
   \<and> (0::real) \<le> 4000 \<and> (0::real) < 4 \<and> (4::real) \<le> 6 \<and> num_panels 4000 4 = Inr 3 \<and> num_panels 4000 6 = Inr 2"
  using num_panels_monotone [of 5 300 4000 4000 4 6] by (simp add: num_panels_def req_panel_kw_def)

text \<open>The generation estimate of the chosen panels covers the demand, also for a demand of 0.\<close>

lemma gen_covers_demand:
  assumes "0 \<le> e" "0 < s"
  shows "\<exists>n. num_panels e s = Inr n \<and> e \<le> gen_wh n s"
proof -
  define n where "n = \<lceil>e / (350 * s)\<rceil>"
  have up: "e / (350 * s) \<le> real_of_int n"
    unfolding n_def by (rule le_of_int_ceiling)
  have "0 \<le> e / (350 * s)" using assms by simp
  with up have "0 \<le> real_of_int n" by linarith
  then have a: "real_of_int n * (350 * s) \<le> real_of_int n * (375 * s)"
    using assms by (intro mult_left_mono) auto
  from up assms have b: "e \<le> real_of_int n * (350 * s)"
    by (simp add: pos_divide_le_eq)
  have c: "gen_wh n s = real_of_int n * (375 * s)"
    by (simp add: gen_wh_def)
  from a b c have "e \<le> gen_wh n s" by linarith
  moreover have "num_panels e s = Inr n"
    using assms by (simp add: panels_value panels_simpler n_def)
  ultimately show ?thesis by blast
qed



section \<open>Inverter\<close>

text \<open>
  Claim C3. The inverter is chosen from the required capacity, peak power times 1.25, by
  fixed thresholds: below 3000 W the 3kVA class at 24 V, otherwise below 5000 W the 5kVA
  class at 48 V, otherwise the 10kVA class at 48 V. A peak of 4200 W needs 5250 W and gets
  the 10kVA class at 48 V. (It holds for every peak, in particular the non-negative ones.)
\<close>

theorem inverter_tiers:
  "(req_inv_watts peak = real_of_int peak * 1.25)
   \<and> (req_inv_watts peak < 3000 \<longrightarrow>
        fst (select_inverter peak) = ''3kVA (24V)'' \<and> snd (snd (select_inverter peak)) = 24)
   \<and> (\<not> req_inv_watts peak < 3000 \<and> req_inv_watts peak < 5000 \<longrightarrow>
        fst (select_inverter peak) = ''5kVA (48V)'' \<and> snd (snd (select_inverter peak)) = 48)
   \<and> (\<not> req_inv_watts peak < 3000 \<and> \<not> req_inv_watts peak < 5000 \<longrightarrow>
        fst (select_inverter peak) = ''10kVA (48V)'' \<and> snd (snd (select_inverter peak)) = 48)
   \<and> req_inv_watts 4200 = 5250
   \<and> select_inverter 4200 = (''10kVA (48V)'', inverter_10kva, 48)"
  by (simp add: select_inverter_def req_inv_watts_def)

theorem inverter_tiers_witness:
  "req_inv_watts 1400 = 1750 \<and> req_inv_watts 1400 < 3000
   \<and> fst (select_inverter 1400) = ''3kVA (24V)'' \<and> snd (snd (select_inverter 1400)) = 24
   \<and> \<not> req_inv_watts 2800 < 3000 \<and> req_inv_watts 2800 < 5000
   \<and> fst (select_inverter 2800) = ''5kVA (48V)'' \<and> snd (snd (select_inverter 2800)) = 48
   \<and> \<not> req_inv_watts 4200 < 3000 \<and> \<not> req_inv_watts 4200 < 5000
   \<and> fst (select_inverter 4200) = ''10kVA (48V)'' \<and> snd (snd (select_inverter 4200)) = 48"
  using inverter_tiers [of 1400] inverter_tiers [of 2800] inverter_tiers [of 4200] by (simp add: req_inv_watts_def)

section \<open>Batteries\<close>

lemma py_int_of_int: "py_int (real_of_int k) = k"
  by (simp add: py_int_def)

lemma py_int_mult: "py_int (real_of_int a * real_of_int b) = a * b"
  by (simp only: of_int_mult [symmetric] py_int_of_int)

lemma batteries_series:
  assumes "sys_v = 12 * k" "0 < k"
  shows "num_batteries night sys_v =
           Inr (if k * \<lceil>night / 0.5 / real_of_int sys_v / 220\<rceil> < k then k
                else k * \<lceil>night / 0.5 / real_of_int sys_v / 220\<rceil>)"
proof -
  define p where "p = \<lceil>night / 0.5 / real_of_int sys_v / 220\<rceil>"
  have nz: "sys_v \<noteq> 0" using assms by simp
  have s: "real_of_int sys_v / 12 = real_of_int k" using assms by simp
  have lt: "(real_of_int (k * p) < real_of_int k) = (k * p < k)"
    by (rule of_int_less_iff)
  have "num_batteries night sys_v =
          Inr (if real_of_int (py_int (real_of_int sys_v / 12 * real_of_int p)) < real_of_int sys_v / 12
               then py_int (real_of_int sys_v / 12)
               else py_int (real_of_int sys_v / 12 * real_of_int p))"
    using nz by (simp add: num_batteries_def Let_def p_def)
  also have "\<dots> = Inr (if k * p < k then k else k * p)"
    by (simp only: s py_int_mult py_int_of_int lt)
  finally show ?thesis by (simp only: p_def)
qed

text \<open>
  Claim C4. For a non-negative night energy and a system voltage of 24 or 48, the number of
  batteries is the series count (voltage / 12) times the ceiling of
  (night energy / 0.5 / voltage) / 220, except that it is the series count when that product
  is below the series count, as it is for a night energy of 0. So it is never below the
  series count.
\<close>

theorem num_batteries_formula:
  "0 \<le> night \<and> (sys_v = 24 \<or> sys_v = 48) \<longrightarrow>
     (\<exists>n. num_batteries night sys_v = Inr n
        \<and> n = (let series = sys_v div 12;
                    product = series * \<lceil>(night / 0.5 / real_of_int sys_v) / 220\<rceil>
                in if product < series then series else product)
        \<and> sys_v div 12 \<le> n
        \<and> (night = 0 \<longrightarrow> n = sys_v div 12))"
proof
  assume h: "0 \<le> night \<and> (sys_v = 24 \<or> sys_v = 48)"
  define k where "k = sys_v div 12"
  define p where "p = \<lceil>night / 0.5 / real_of_int sys_v / 220\<rceil>"
  have k: "sys_v = 12 * k" "0 < k" using h by (auto simp: k_def)
  have nb: "num_batteries night sys_v = Inr (if k * p < k then k else k * p)"
    unfolding p_def by (rule batteries_series [OF k])
  have ge: "k \<le> (if k * p < k then k else k * p)" by simp
  have zero: "night = 0 \<longrightarrow> (if k * p < k then k else k * p) = k"
    using k by (simp add: p_def)
  from nb ge zero show "\<exists>n. num_batteries night sys_v = Inr n
        \<and> n = (let series = sys_v div 12;
                    product = series * \<lceil>(night / 0.5 / real_of_int sys_v) / 220\<rceil>
                in if product < series then series else product)
        \<and> sys_v div 12 \<le> n
        \<and> (night = 0 \<longrightarrow> n = sys_v div 12)"
    unfolding k_def p_def Let_def by blast
qed

theorem num_batteries_formula_witness:
  "(0::real) \<le> 20000 \<and> ((48::int) = 24 \<or> (48::int) = 48) \<and> num_batteries 20000 48 = Inr 16
   \<and> (48::int) div 12 \<le> 16
   \<and> (0::real) \<le> 0 \<and> ((24::int) = 24 \<or> (24::int) = 48) \<and> num_batteries 0 24 = Inr 2"
proof -
  have a: "\<exists>n. num_batteries 20000 48 = Inr n
        \<and> n = (let series = (48::int) div 12;
                    product = series * \<lceil>((20000::real) / 0.5 / real_of_int 48) / 220\<rceil>
                in if product < series then series else product)
        \<and> (48::int) div 12 \<le> n
        \<and> ((20000::real) = 0 \<longrightarrow> n = 48 div 12)"
    using num_batteries_formula [of 20000 48] by simp
  have b: "\<exists>n. num_batteries 0 24 = Inr n
        \<and> n = (let series = (24::int) div 12;
                    product = series * \<lceil>((0::real) / 0.5 / real_of_int 24) / 220\<rceil>
                in if product < series then series else product)
        \<and> (24::int) div 12 \<le> n
        \<and> ((0::real) = 0 \<longrightarrow> n = 24 div 12)"
    using num_batteries_formula [of 0 24] by simp
  from a b show ?thesis by auto
qed

section \<open>Sun hours\<close>

lemma table_lookup_mem: "table_lookup t c = Some (k, v) \<Longrightarrow> (k, v) \<in> set t"
  by (induction t) (auto split: if_splits)

lemma table_lookup_none:
  "(\<forall>(key, v)\<in>set t. \<not> contains (lower c) (lower key)) \<Longrightarrow> table_lookup t c = None"
  by (induction t) auto

lemma solar_data_pos: "(k, v) \<in> set SOLAR_DATA \<Longrightarrow> 0 < v"
  by (auto simp: SOLAR_DATA_def)

lemma lat_hours_pos: "0 < lat_hours lat"
  by (simp add: lat_hours_def)

lemma sun_hours_pos: "0 < fst (get_sun_hours geocode city_name)"
proof (cases "table_lookup SOLAR_DATA city_name")
  case None
  then show ?thesis
    by (cases "geocode (city_name @ '', Nigeria'')")
       (simp_all add: get_sun_hours_def geo_lookup_def nigeria_average_def lat_hours_pos)
next
  case (Some kv)
  obtain k v where kv: "kv = (k, v)" by (cases kv)
  with Some have "0 < v" using table_lookup_mem solar_data_pos by blast
  with Some kv show ?thesis by (simp add: get_sun_hours_def)
qed

text \<open>
  Claim C8. For every city name and every behaviour of the geocoding service, the function
  returns a pair whose sun hours are strictly positive: its result type has no error, the
  exception of the service is a case of \<open>geo_lookup\<close> that ends in the default. When no key
  of the table occurs in the name and the service raises or returns no location, the
  result is 4.6 hours with the text of the Nigeria average.
\<close>

theorem sun_hours_positive_or_average:
  "0 < fst (get_sun_hours geocode city_name)
   \<and> ((\<forall>(key, v)\<in>set SOLAR_DATA. \<not> contains (lower city_name) (lower key))
        \<and> (geocode (city_name @ '', Nigeria'') = Raised
            \<or> geocode (city_name @ '', Nigeria'') = NoLocation)
      \<longrightarrow> get_sun_hours geocode city_name = (4.6, Text ''Using Nigeria Average (4.6h)''))"
proof (intro conjI impI)
  show "0 < fst (get_sun_hours geocode city_name)" by (rule sun_hours_pos)
next
  assume h: "(\<forall>(key, v)\<in>set SOLAR_DATA. \<not> contains (lower city_name) (lower key))
        \<and> (geocode (city_name @ '', Nigeria'') = Raised
            \<or> geocode (city_name @ '', Nigeria'') = NoLocation)"
  then have "table_lookup SOLAR_DATA city_name = None"
    by (intro table_lookup_none) simp
  with h show "get_sun_hours geocode city_name = (4.6, Text ''Using Nigeria Average (4.6h)'')"
    by (auto simp: get_sun_hours_def geo_lookup_def nigeria_average_def)
qed

theorem sun_hours_positive_or_average_witness:
  "list_all (\<lambda>(key, v). \<not> contains (lower ''Zaria'') (lower key)) SOLAR_DATA
   \<and> (\<lambda>_. Raised) (''Zaria'' @ '', Nigeria'') = Raised
   \<and> get_sun_hours (\<lambda>_. Raised) ''Zaria'' = (4.6, Text ''Using Nigeria Average (4.6h)'')
   \<and> (0::real) < fst (get_sun_hours (\<lambda>_. Raised) ''Zaria'')"
proof -
  have a: "\<forall>(key, v)\<in>set SOLAR_DATA. \<not> contains (lower ''Zaria'') (lower key)"
    by (simp add: SOLAR_DATA_def lower_def lower_char_def ascii_uppercase_def ascii_lowercase_def startswith_def)
  from sun_hours_positive_or_average [of "\<lambda>_. Raised" "''Zaria''"] a show ?thesis
    by (simp add: list_all_iff)
qed

text \<open>The other two outcomes, on concrete inputs: a geocoded latitude and a match in the table.\<close>

lemma sun_hours_geocoded_example:
  "get_sun_hours (\<lambda>_. Located 12.5) ''Zaria'' = (5.8, Detected 12.5 5.8)"
  by (simp add: get_sun_hours_def SOLAR_DATA_def lower_def lower_char_def ascii_uppercase_def ascii_lowercase_def startswith_def geo_lookup_def lat_hours_def)

lemma sun_hours_table_example:
  "get_sun_hours g ''Near PORT Harcourt gra'' = (3.8, Text ''Using historical data for Port Harcourt'')"
  by (simp add: get_sun_hours_def SOLAR_DATA_def lower_def lower_char_def ascii_uppercase_def
      ascii_lowercase_def startswith_def)

section \<open>Empty selection\<close>

lemma no_selection:
  "\<forall>n\<in>set catalogue_names. q n = 0 \<Longrightarrow> collect_user_items q h = []"
  by (simp add: collect_user_items_def APPLIANCES_def catalogue_names_def add_item_def mk_def)

text \<open>
  Claim C9. When every appliance of the catalogue has quantity 0, the list of selected items
  is empty and pressing the button yields the validation error alone: the result holds no
  load summary, no hardware and no costs, for every mode and every sun hours (also for sun
  hours 0, where the sizing would divide by zero).
\<close>

theorem empty_selection_rejected:
  "(\<forall>n\<in>set catalogue_names. q n = 0) \<longrightarrow>
     collect_user_items q h = []
     \<and> app geocode city_input mode q h
         = Inl (ValidationError ''Please select at least one appliance.'')
     \<and> run_analysis mode sun_hours (collect_user_items q h)
         = Inl (ValidationError ''Please select at least one appliance.'')"
  by (simp add: no_selection app_def run_analysis_def)

theorem empty_selection_rejected_witness:
  "collect_user_items (\<lambda>_. 0) (\<lambda>_. 6) = []
   \<and> app (\<lambda>_. NoLocation) ''Ibadan'' Reliability (\<lambda>_. 0) (\<lambda>_. 6)
       = Inl (ValidationError ''Please select at least one appliance.'')
   \<and> run_analysis Reliability 0 (collect_user_items (\<lambda>_. 0) (\<lambda>_. 6))
       = Inl (ValidationError ''Please select at least one appliance.'')"
  using empty_selection_rejected [of "\<lambda>_. 0" "\<lambda>_. 6" "\<lambda>_. NoLocation" "''Ibadan''" Reliability 0]
  by (simp add: run_analysis_def)

section \<open>The whole run\<close>

text \<open>
  The pieces together, for widget values within their ranges: the selected items are within
  the input ranges, the sizing never divides by zero, and a run ends either in the validation
  error (nothing selected) or in a report whose under-provisioning warning is off.
\<close>

lemma collected_items_valid:
  assumes "\<forall>n. q n \<le> 10" "\<forall>n. 0 \<le> h n \<and> h n \<le> 24"
  shows "\<forall>i\<in>set (collect_user_items q h). valid_item i \<and> 0 < qty i"
  using assms
  by (auto simp: collect_user_items_def APPLIANCES_def add_item_def mk_def valid_item_def
      split: if_splits intro: less_imp_le)

lemma total_nonneg:
  "\<forall>i\<in>set items. valid_item i \<Longrightarrow> 0 \<le> total_daily_wh (load_analysis mode items)"
proof -
  assume v: "\<forall>i\<in>set items. valid_item i"
  have "0 \<le> (\<Sum>i\<leftarrow>items. daily_use i)"
    by (rule sum_list_nonneg) (use v daily_use_nonneg in auto)
  then show ?thesis by (simp add: load_analysis_def foldl_total load_init_def)
qed

lemma inverter_voltage: "snd (snd (select_inverter p)) = 24 \<or> snd (snd (select_inverter p)) = 48"
  by (simp add: select_inverter_def)

lemma batteries_return:
  "sys_v = 24 \<or> sys_v = 48 \<Longrightarrow> \<exists>n. num_batteries night sys_v = Inr n"
  by (auto simp: num_batteries_def Let_def)

lemma run_analysis_no_warning:
  assumes ne: "user_items \<noteq> []" and v: "\<forall>i\<in>set user_items. valid_item i" and s: "0 < sun_hours"
  shows "\<exists>r. run_analysis mode sun_hours user_items = Inr r \<and> \<not> warning r"
proof -
  define ld where "ld = load_analysis mode user_items"
  have "0 \<le> total_daily_wh ld" unfolding ld_def using v by (rule total_nonneg)
  then obtain np where np: "num_panels (total_daily_wh ld) sun_hours = Inr np"
    and g: "total_daily_wh ld \<le> gen_wh np sun_hours"
    using gen_covers_demand s by blast
  obtain iname iprice sv where inv: "select_inverter (peak_load_watts ld) = (iname, iprice, sv)"
    by (cases "select_inverter (peak_load_watts ld)")
  then have "sv = 24 \<or> sv = 48" using inverter_voltage [of "peak_load_watts ld"] by simp
  then obtain nb where nb: "num_batteries (night_load_wh ld) sv = Inr nb"
    using batteries_return by blast
  show ?thesis
    using ne np g inv nb by (simp add: run_analysis_def ld_def [symmetric] Let_def not_less)
qed

lemma app_outcomes:
  assumes "\<forall>n. q n \<le> 10" "\<forall>n. 0 \<le> h n \<and> h n \<le> 24"
  shows "(collect_user_items q h = []
            \<and> app geocode city_input mode q h
                = Inl (ValidationError ''Please select at least one appliance.''))
         \<or> (\<exists>r. app geocode city_input mode q h = Inr r \<and> \<not> warning r)"
proof (cases "collect_user_items q h = []")
  case True
  then show ?thesis by (simp add: app_def run_analysis_def)
next
  case False
  have "\<forall>i\<in>set (collect_user_items q h). valid_item i"
    using collected_items_valid [OF assms] by blast
  with False sun_hours_pos [of geocode city_input] show ?thesis
    unfolding app_def by (intro disjI2 run_analysis_no_warning)
qed

end
